theory Spec2Isabelle
  imports Main "HOL-Library.Word" "HOL-Library.Sublist"
begin

unbundle bit_operations_syntax

section \<open>JavaScript strings\<close>

text \<open>
  A JavaScript string is a sequence of 16-bit code units. All the string operations the
  decoder uses (\<^verbatim>\<open>split\<close>, \<^verbatim>\<open>includes\<close>, \<^verbatim>\<open>indexOf\<close>, \<^verbatim>\<open>substring\<close>, \<^verbatim>\<open>replace\<close> with a global
  literal pattern, \<^verbatim>\<open>join\<close>) work on code units, so they are modelled on lists.
  \<open>js\<close> writes an ASCII literal as such a string.
\<close>

type_synonym code_unit = "16 word"
type_synonym jsstring = "code_unit list"

definition js :: "string \<Rightarrow> jsstring" where
  "js s = map (\<lambda>c. of_nat (of_char c)) s"

text \<open>\<^verbatim>\<open>s.indexOf(p)\<close>: the first position where \<open>p\<close> starts; \<open>None\<close> stands for \<open>-1\<close>.\<close>

fun indexOf :: "'a list \<Rightarrow> 'a list \<Rightarrow> nat option" where
  "indexOf [] p = (if p = [] then Some 0 else None)"
| "indexOf (x # xs) p =
     (if prefix p (x # xs) then Some 0 else map_option Suc (indexOf xs p))"

text \<open>\<^verbatim>\<open>s.includes(p)\<close>.\<close>

definition str_includes :: "'a list \<Rightarrow> 'a list \<Rightarrow> bool" where
  "str_includes s p = (indexOf s p \<noteq> None)"

text \<open>
  \<^verbatim>\<open>s.split(sep)\<close> for a string separator: the pieces between the non-overlapping
  occurrences of \<open>sep\<close>, found from left to right. The result is never empty. An empty
  separator splits into the single code units.
\<close>

function split_at :: "'a list \<Rightarrow> 'a list \<Rightarrow> 'a list list" where
  "split_at sep [] = [[]]"
| "split_at sep (x # xs) =
     (if sep \<noteq> [] \<and> prefix sep (x # xs)
      then [] # split_at sep (drop (length sep) (x # xs))
      else (case split_at sep xs of
              [] \<Rightarrow> [[x]]
            | piece # pieces \<Rightarrow> (x # piece) # pieces))"
  by pat_completeness auto
termination
  by (relation "measure (\<lambda>(sep, s). length s)") auto

definition split_js :: "'a list \<Rightarrow> 'a list \<Rightarrow> 'a list list" where
  "split_js s sep = (if sep = [] then map (\<lambda>c. [c]) s else split_at sep s)"

text \<open>
  \<^verbatim>\<open>s.replace(/pat/g, rep)\<close> for a pattern that matches one literal, non-empty string:
  one pass from left to right over the input, every non-overlapping match replaced.
  The text that a replacement produces is not scanned again.
\<close>

function replace_g :: "'a list \<Rightarrow> 'a list \<Rightarrow> 'a list \<Rightarrow> 'a list" where
  "replace_g pat rep [] = []"
| "replace_g pat rep (x # xs) =
     (if pat \<noteq> [] \<and> prefix pat (x # xs)
      then rep @ replace_g pat rep (drop (length pat) (x # xs))
      else x # replace_g pat rep xs)"
  by pat_completeness auto
termination
  by (relation "measure (\<lambda>(pat, rep, s). length s)") auto

text \<open>\<^verbatim>\<open>xs.join(sep)\<close>.\<close>

fun join_js :: "'a list list \<Rightarrow> 'a list \<Rightarrow> 'a list" where
  "join_js [] sep = []"
| "join_js [x] sep = x"
| "join_js (x # y # ys) sep = x @ sep @ join_js (y # ys) sep"

text \<open>The decimal digits of an array index or length, as a template literal prints them.\<close>

fun toString_nat :: "nat \<Rightarrow> jsstring" where
  "toString_nat n =
     (if n < 10 then [of_nat (48 + n)]
      else toString_nat (n div 10) @ [of_nat (48 + n mod 10)])"

section \<open>JavaScript values, errors and JSON.stringify\<close>

text \<open>
  The values \<^verbatim>\<open>JSON.parse\<close> can return, and \<^verbatim>\<open>undefined\<close>. A number \<open>JNum m e\<close> stands for
  the decimal \<open>m * 10^e\<close> that was written; an object keeps its members in the order of
  the text.
\<close>

datatype jsval =
    JUndefined
  | JNull
  | JBool bool
  | JNum int int
  | JStr jsstring
  | JArr "jsval list"
  | JObj "(jsstring \<times> jsval) list"

datatype js_error =
    TypeError jsstring
  | SyntaxError jsstring
  | Error jsstring

text \<open>\<^verbatim>\<open>err instanceof Error ? err.message : String(err)\<close>: every error here is an Error.\<close>

fun message :: "js_error \<Rightarrow> jsstring" where
  "message (TypeError m) = m"
| "message (SyntaxError m) = m"
| "message (Error m) = m"

text \<open>
  Whether a value counts as true in \<^verbatim>\<open>v || ""\<close>. A number is false when the double it is
  read as is zero: the decimal is zero, or at most half the least positive double,
  \<open>2^-1075\<close>, which rounds to zero.
\<close>

fun truthy :: "jsval \<Rightarrow> bool" where
  "truthy JUndefined = False"
| "truthy JNull = False"
| "truthy (JBool b) = b"
| "truthy (JNum m e) =
     (if 0 \<le> e then m \<noteq> 0 else 10 ^ nat (- e) < \<bar>m\<bar> * 2 ^ 1075)"
| "truthy (JStr s) = (s \<noteq> [])"
| "truthy (JArr vs) = True"
| "truthy (JObj ms) = True"

text \<open>
  \<^verbatim>\<open>parsed["text"]\<close>: reading a property of \<^verbatim>\<open>null\<close> throws; an object gives the member
  written last under that key, or \<^verbatim>\<open>undefined\<close>; no other parsed value has the property.
\<close>

definition TEXT_KEY :: jsstring where
  "TEXT_KEY = js ''text''"

fun get_text :: "jsval \<Rightarrow> js_error + jsval" where
  "get_text (JObj ms) =
     (case map_of (rev ms) TEXT_KEY of None \<Rightarrow> Inr JUndefined | Some v \<Rightarrow> Inr v)"
| "get_text JNull =
     Inl (TypeError (js ''Cannot read properties of null (reading 'text')''))"
| "get_text JUndefined =
     Inl (TypeError (js ''Cannot read properties of undefined (reading 'text')''))"
| "get_text v = Inr JUndefined"

definition DQUOTE :: code_unit where
  "DQUOTE = 0x22"

definition BACKSLASH :: code_unit where
  "BACKSLASH = 0x5C"

definition hex_digit :: "nat \<Rightarrow> code_unit" where
  "hex_digit d = (if d < 10 then of_nat (48 + d) else of_nat (87 + d))"

definition unicode_escape :: "code_unit \<Rightarrow> jsstring" where
  "unicode_escape c =
     (let n = unat c in
      [BACKSLASH, 0x75, hex_digit (n div 4096), hex_digit (n div 256 mod 16),
       hex_digit (n div 16 mod 16), hex_digit (n mod 16)])"

definition is_high_surrogate :: "code_unit \<Rightarrow> bool" where
  "is_high_surrogate c = (0xD800 \<le> c \<and> c \<le> 0xDBFF)"

definition is_low_surrogate :: "code_unit \<Rightarrow> bool" where
  "is_low_surrogate c = (0xDC00 \<le> c \<and> c \<le> 0xDFFF)"

text \<open>One code unit that is not a surrogate, as \<^verbatim>\<open>JSON.stringify\<close> writes it in a string.\<close>

definition quote_unit :: "code_unit \<Rightarrow> jsstring" where
  "quote_unit c =
     (if c = 0x08 then [BACKSLASH, 0x62]
      else if c = 0x09 then [BACKSLASH, 0x74]
      else if c = 0x0A then [BACKSLASH, 0x6E]
      else if c = 0x0C then [BACKSLASH, 0x66]
      else if c = 0x0D then [BACKSLASH, 0x72]
      else if c = DQUOTE then [BACKSLASH, DQUOTE]
      else if c = BACKSLASH then [BACKSLASH, BACKSLASH]
      else if c < 0x20 then unicode_escape c
      else [c])"

text \<open>A surrogate pair is kept; a surrogate that stands alone is escaped.\<close>

fun quote_units :: "jsstring \<Rightarrow> jsstring" where
  "quote_units [] = []"
| "quote_units [c] =
     (if is_high_surrogate c \<or> is_low_surrogate c then unicode_escape c
      else quote_unit c)"
| "quote_units (c # d # ds) =
     (if is_high_surrogate c \<and> is_low_surrogate d then c # d # quote_units ds
      else if is_high_surrogate c \<or> is_low_surrogate c
      then unicode_escape c @ quote_units (d # ds)
      else quote_unit c @ quote_units (d # ds))"

text \<open>\<^verbatim>\<open>JSON.stringify\<close> of a string, of an array of strings, and of a boolean.\<close>

definition stringify_string :: "jsstring \<Rightarrow> jsstring" where
  "stringify_string s = [DQUOTE] @ quote_units s @ [DQUOTE]"

definition stringify_strings :: "jsstring list \<Rightarrow> jsstring" where
  "stringify_strings xs = js ''['' @ join_js (map stringify_string xs) (js '','') @ js '']''"

definition stringify_bool :: "bool \<Rightarrow> jsstring" where
  "stringify_bool b = (if b then js ''true'' else js ''false'')"

text \<open>
  \<^verbatim>\<open>JSON.stringify\<close> of an object whose members are given with their values already
  written: \<open>{"k1":v1,"k2":v2}\<close>.
\<close>

definition stringify_member :: "jsstring \<times> jsstring \<Rightarrow> jsstring" where
  "stringify_member kv = stringify_string (fst kv) @ js '':'' @ snd kv"

definition stringify_object :: "(jsstring \<times> jsstring) list \<Rightarrow> jsstring" where
  "stringify_object kvs = js ''{'' @ join_js (map stringify_member kvs) (js '','') @ js ''}''"

section \<open>The platform\<close>

text \<open>
  What the program calls and does not define. Of the runtime, \<open>Buffer_base64_utf8 s\<close>
  is \<^verbatim>\<open>Buffer.from(s, "base64").toString("utf-8")\<close> and \<open>JSON_parse\<close> is \<^verbatim>\<open>JSON.parse\<close>. The
  network is a function from the signed call to the text of the response: it stands
  for \<^verbatim>\<open>sigv4Request\<close> (credentials, signing and the HTTP call) followed by
  \<^verbatim>\<open>response.text()\<close>. Each one returns its value or the error it throws.
\<close>

record SigV4Call =
  req_url :: jsstring
  req_method :: jsstring
  req_body :: jsstring
  req_headers :: "(jsstring \<times> jsstring) list"
  req_service :: jsstring
  req_region :: jsstring

type_synonym network = "SigV4Call \<Rightarrow> js_error + jsstring"

record platform =
  Buffer_base64_utf8 :: "jsstring \<Rightarrow> js_error + jsstring"
  JSON_parse :: "jsstring \<Rightarrow> js_error + jsval"

section \<open>decodeResponse\<close>

definition MESSAGE_TYPE :: jsstring where
  "MESSAGE_TYPE = js '':message-type''"

definition BYTES :: jsstring where
  "BYTES = js ''bytes''"

definition searchString :: jsstring where
  "searchString = js ''finalResponse'' @ [DQUOTE] @ js '':''"

definition CLOSING :: jsstring where
  "CLOSING = [DQUOTE] @ js ''}''"

definition NOISE_INPUT :: jsstring where
  "NOISE_INPUT = js ''{input:{value:''"

definition NOISE_SOURCE :: jsstring where
  "NOISE_SOURCE = js '',source:null}}''"

definition NEWLINE :: jsstring where
  "NEWLINE = [0x0A]"

text \<open>The line the catch block of the loop pushes for the segment at \<open>idx\<close>.\<close>

definition base64_error_line :: "nat \<Rightarrow> js_error \<Rightarrow> jsstring" where
  "base64_error_line idx err =
     js ''Error decoding base64 at index '' @ toString_nat idx @ js '': '' @ message err"

text \<open>
  The body of the loop over \<open>splitResponse\<close>: what one segment pushes on
  \<open>capturedOutput\<close>. A segment with \<open>bytes\<close> pushes the decoded fourth quote-separated
  field, or the error line when the decoder throws, or nothing when it has no fourth
  field; any other segment pushes two lines.
\<close>

definition loopBody :: "platform \<Rightarrow> nat \<Rightarrow> jsstring \<Rightarrow> jsstring list" where
  "loopBody P idx part =
     (if str_includes part BYTES then
        (let parts = split_js part [DQUOTE] in
         if 3 < length parts then
           (case Buffer_base64_utf8 P (parts ! 3) of
              Inr finalResponsePart \<Rightarrow> [finalResponsePart]
            | Inl err \<Rightarrow> [base64_error_line idx err])
         else [])
      else [js ''no bytes at index '' @ toString_nat idx, part])"

fun processParts :: "platform \<Rightarrow> nat \<Rightarrow> jsstring list \<Rightarrow> jsstring list \<Rightarrow> jsstring list" where
  "processParts P idx [] capturedOutput = capturedOutput"
| "processParts P idx (part # rest) capturedOutput =
     processParts P (Suc idx) rest (capturedOutput @ loopBody P idx part)"

text \<open>
  The lines after the loop: \<open>finalResponse\<close> from the last segment when it holds
  \<open>bytes\<close> (decoded outside any try block, so that an error of the decoder leaves the
  function), and otherwise from the text after \<open>finalResponse":\<close> up to the first \<open>"}\<close>,
  parsed as JSON. The result is the lines pushed and the value of \<open>finalResponse\<close>,
  which \<^verbatim>\<open>parsed["text"] || ""\<close> need not leave a string.
\<close>

definition lastStage :: "platform \<Rightarrow> jsstring \<Rightarrow> jsstring \<Rightarrow> js_error + (jsstring list \<times> jsval)" where
  "lastStage P responseText lastResponse =
     (if str_includes lastResponse BYTES then
        (let parts = split_js lastResponse [DQUOTE] in
         if 3 < length parts then
           (case Buffer_base64_utf8 P (parts ! 3) of
              Inl err \<Rightarrow> Inl err
            | Inr decoded \<Rightarrow> Inr ([js ''Bytes in last response''], JStr decoded))
         else Inr ([js ''Bytes in last response''], JStr []))
      else
        (let pushed = [js ''no bytes in last response''] in
         case indexOf responseText searchString of
           None \<Rightarrow> Inr (pushed, JStr [])
         | Some startIdx \<Rightarrow>
             (let part1 = drop (startIdx + length searchString) responseText in
              case indexOf part1 CLOSING of
                None \<Rightarrow> Inr (pushed, JStr [])
              | Some endIdx \<Rightarrow>
                  (let part2 = take (endIdx + 2) part1 in
                   case (case JSON_parse P part2 of
                           Inl err \<Rightarrow> Inl err
                         | Inr parsed \<Rightarrow> get_text parsed) of
                     Inr v \<Rightarrow> Inr (pushed, if truthy v then v else JStr [])
                   | Inl err \<Rightarrow>
                       Inr (pushed @ [js ''Error parsing JSON: '' @ message err],
                            JStr [])))))"

text \<open>The three replacements on the final response.\<close>

definition normalize_text :: "jsstring \<Rightarrow> jsstring" where
  "normalize_text finalResponse =
     replace_g NOISE_SOURCE []
       (replace_g NOISE_INPUT []
         (replace_g [DQUOTE] [] finalResponse))"

text \<open>
  \<open>capturedOutput\<close> as it stands when the replacements start, with \<open>finalResponse\<close>.
\<close>

definition decodeLog :: "platform \<Rightarrow> jsstring \<Rightarrow> js_error + (jsstring list \<times> jsval)" where
  "decodeLog P responseText =
     (let splitResponse = split_js responseText MESSAGE_TYPE;
          capturedOutput =
            processParts P 0 splitResponse
              [js ''Decoded response: '' @ responseText,
               js ''Split Response: '' @ stringify_strings splitResponse,
               js ''length of split: '' @ toString_nat (length splitResponse)];
          lastResponse = last splitResponse
      in case lastStage P responseText lastResponse of
           Inl err \<Rightarrow> Inl err
         | Inr (pushed, finalResponse) \<Rightarrow>
             Inr (capturedOutput @ [js ''Lst Response: '' @ lastResponse] @ pushed,
                  finalResponse))"

text \<open>
  \<open>decodeResponse\<close> on the text of the response: the trace and the answer, or the error
  thrown. \<^verbatim>\<open>finalResponse.replace\<close> is a method of strings only.
\<close>

definition decodeResponse :: "platform \<Rightarrow> jsstring \<Rightarrow> js_error + (jsstring \<times> jsstring)" where
  "decodeResponse P responseText =
     (case decodeLog P responseText of
        Inl err \<Rightarrow> Inl err
      | Inr (capturedOutput, finalResponse) \<Rightarrow>
          (case finalResponse of
             JStr s \<Rightarrow> Inr (join_js capturedOutput NEWLINE, normalize_text s)
           | _ \<Rightarrow> Inl (TypeError (js ''finalResponse.replace is not a function''))))"

section \<open>askQuestion and lambdaHandler\<close>

definition agentId :: jsstring where
  "agentId = js ''RWRMVZLC8A''"

definition agentAliasId :: jsstring where
  "agentAliasId = js ''JTKGKFHPKP''"

definition theRegion :: jsstring where
  "theRegion = js ''ca-central-1''"

text \<open>The object \<open>myobj\<close> that \<open>askQuestion\<close> sends, and \<^verbatim>\<open>JSON.stringify(myobj)\<close>.\<close>

record myobj =
  inputText :: jsstring
  enableTrace :: bool
  endSession :: bool

definition stringify_myobj :: "myobj \<Rightarrow> jsstring" where
  "stringify_myobj obj =
     stringify_object
       [(js ''inputText'', stringify_string (inputText obj)),
        (js ''enableTrace'', stringify_bool (enableTrace obj)),
        (js ''endSession'', stringify_bool (endSession obj))]"

text \<open>
  \<open>askQuestion\<close> makes one signed POST and decodes its text. The calls made are
  returned with the result, so that what was sent can be stated.
\<close>

definition askQuestion ::
  "platform \<Rightarrow> network \<Rightarrow> jsstring \<Rightarrow> jsstring \<Rightarrow> bool
     \<Rightarrow> SigV4Call list \<times> (js_error + (jsstring \<times> jsstring))" where
  "askQuestion P net question url endSession_arg =
     (let obj = \<lparr>inputText = question, enableTrace = True, endSession = endSession_arg\<rparr>;
          call = \<lparr>req_url = url, req_method = js ''POST'',
                  req_body = stringify_myobj obj,
                  req_headers = [(js ''content-type'', js ''application/json''),
                                 (js ''accept'', js ''application/json'')],
                  req_service = js ''bedrock'', req_region = theRegion\<rparr>
      in ([call],
          case net call of
            Inl err \<Rightarrow> Inl err
          | Inr responseText \<Rightarrow> decodeResponse P responseText))"

text \<open>The field \<^verbatim>\<open>endSession?: boolean | string\<close> of the event.\<close>

datatype rawEndSession = Absent | Boolean bool | String jsstring

record LambdaEvent =
  sessionId :: jsstring
  question :: jsstring
  event_endSession :: rawEndSession

record LambdaResponse =
  statusCode :: nat
  body :: jsstring

definition lambdaHandler ::
  "platform \<Rightarrow> network \<Rightarrow> LambdaEvent \<Rightarrow> SigV4Call list \<times> LambdaResponse" where
  "lambdaHandler P net event =
     (let endSession_flag =
            (event_endSession event = Boolean True
             \<or> event_endSession event = String (js ''true''));
          url = js ''https://bedrock-agent-runtime.'' @ theRegion
                @ js ''.amazonaws.com/agents/'' @ agentId
                @ js ''/agentAliases/'' @ agentAliasId
                @ js ''/sessions/'' @ sessionId event @ js ''/text'';
          asked = askQuestion P net (question event) url endSession_flag
      in (fst asked,
          case snd asked of
            Inr (responseOutput, traceData) \<Rightarrow>
              \<lparr>statusCode = 200,
               body = stringify_object
                        [(js ''response'', stringify_string responseOutput),
                         (js ''trace_data'', stringify_string traceData)]\<rparr>
          | Inl error \<Rightarrow>
              \<lparr>statusCode = 500,
               body = stringify_object
                        [(js ''error'', stringify_string (message error))]\<rparr>))"

section \<open>A concrete platform\<close>

text \<open>
  The theorems that hold for every response text are stated for an arbitrary platform.
  The examples need one that computes: \<open>node\<close> is the runtime the program runs on.
  Its \<^verbatim>\<open>Buffer.from(s, "base64")\<close> accepts every string: characters outside the alphabet
  are skipped, decoding stops at the first \<open>=\<close>, and nothing is thrown; \<^verbatim>\<open>toString("utf-8")\<close>
  replaces what is not UTF-8 by U+FFFD. Its \<^verbatim>\<open>JSON.parse\<close> follows the JSON grammar; the
  two messages of its syntax errors stand for the engine's, whose wording varies.
\<close>

subsection \<open>Base64 and UTF-8\<close>

text \<open>
  The value of a character of the base64 alphabet; \<open>-\<close> and \<open>_\<close> of the URL-safe alphabet
  are accepted as well. The decoder reads the low byte of each code unit only.
\<close>

definition unbase64 :: "code_unit \<Rightarrow> nat option" where
  "unbase64 c =
     (let n = unat c mod 256 in
      if 65 \<le> n \<and> n \<le> 90 then Some (n - 65)
      else if 97 \<le> n \<and> n \<le> 122 then Some (n - 71)
      else if 48 \<le> n \<and> n \<le> 57 then Some (n + 4)
      else if n = 43 \<or> n = 45 then Some 62
      else if n = 47 \<or> n = 95 then Some 63
      else None)"

fun sextets :: "jsstring \<Rightarrow> nat list" where
  "sextets [] = []"
| "sextets (c # cs) =
     (if unat c mod 256 = 0x3D then []
      else (case unbase64 c of None \<Rightarrow> sextets cs | Some v \<Rightarrow> v # sextets cs))"

fun bytes_of_sextets :: "nat list \<Rightarrow> nat list" where
  "bytes_of_sextets (a # b # c # d # rest) =
     (a * 4 + b div 16) # (b mod 16 * 16 + c div 4) # (c mod 4 * 64 + d)
       # bytes_of_sextets rest"
| "bytes_of_sextets [a, b, c] = [a * 4 + b div 16, b mod 16 * 16 + c div 4]"
| "bytes_of_sextets [a, b] = [a * 4 + b div 16]"
| "bytes_of_sextets rest = []"

definition base64_bytes :: "jsstring \<Rightarrow> nat list" where
  "base64_bytes s = bytes_of_sextets (sextets s)"

text \<open>
  Decoding UTF-8 with replacement: a lead byte sets how many continuation bytes follow
  and the range of the next one; a byte that cannot continue the sequence ends it with
  U+FFFD and is read again as a lead byte.
\<close>

record utf8_state =
  needed :: nat
  code_point :: nat
  lower :: nat
  upper :: nat

definition utf8_init :: utf8_state where
  "utf8_init = \<lparr>needed = 0, code_point = 0, lower = 0x80, upper = 0xBF\<rparr>"

definition utf8_lead :: "nat \<Rightarrow> nat list \<times> utf8_state" where
  "utf8_lead b =
     (if b \<le> 0x7F then ([b], utf8_init)
      else if 0xC2 \<le> b \<and> b \<le> 0xDF
      then ([], \<lparr>needed = 1, code_point = b mod 32, lower = 0x80, upper = 0xBF\<rparr>)
      else if 0xE0 \<le> b \<and> b \<le> 0xEF
      then ([], \<lparr>needed = 2, code_point = b mod 16,
                 lower = (if b = 0xE0 then 0xA0 else 0x80),
                 upper = (if b = 0xED then 0x9F else 0xBF)\<rparr>)
      else if 0xF0 \<le> b \<and> b \<le> 0xF4
      then ([], \<lparr>needed = 3, code_point = b mod 8,
                 lower = (if b = 0xF0 then 0x90 else 0x80),
                 upper = (if b = 0xF4 then 0x8F else 0xBF)\<rparr>)
      else ([0xFFFD], utf8_init))"

fun utf8_points :: "utf8_state \<Rightarrow> nat list \<Rightarrow> nat list" where
  "utf8_points st [] = (if needed st = 0 then [] else [0xFFFD])"
| "utf8_points st (b # bs) =
     (if needed st = 0 then fst (utf8_lead b) @ utf8_points (snd (utf8_lead b)) bs
      else if lower st \<le> b \<and> b \<le> upper st then
        (let cp = code_point st * 64 + b mod 64 in
         if needed st = 1 then cp # utf8_points utf8_init bs
         else utf8_points \<lparr>needed = needed st - 1, code_point = cp,
                           lower = 0x80, upper = 0xBF\<rparr> bs)
      else 0xFFFD # fst (utf8_lead b) @ utf8_points (snd (utf8_lead b)) bs)"

definition utf16_units :: "nat \<Rightarrow> jsstring" where
  "utf16_units cp =
     (if cp < 0x10000 then [of_nat cp]
      else [of_nat (0xD800 + (cp - 0x10000) div 1024),
            of_nat (0xDC00 + (cp - 0x10000) mod 1024)])"

definition toString_utf8 :: "nat list \<Rightarrow> jsstring" where
  "toString_utf8 bytes = concat (map utf16_units (utf8_points utf8_init bytes))"

definition node_Buffer_base64_utf8 :: "jsstring \<Rightarrow> js_error + jsstring" where
  "node_Buffer_base64_utf8 s = Inr (toString_utf8 (base64_bytes s))"

subsection \<open>JSON.parse\<close>

text \<open>
  The JSON grammar, read one code unit at a time. The state is the stack of the arrays
  and objects that are open, and the place in the grammar. A frame of an array holds
  its elements, latest first; a frame of an object holds its members, latest first, and
  the key that waits for its value.
\<close>

datatype frame =
    ArrF "jsval list"
  | ObjF "(jsstring \<times> jsval) list" "jsstring option"

datatype numphase = NMinus | NZero | NInt | NDot | NFrac | NExp | NExpSign | NExpDigits

text \<open>
  \<open>InNumber ph neg mant fd eneg ex\<close>: the sign, the digits of the integer and fraction
  parts read as one number, how many of them are fraction digits, and the sign and
  value of the exponent.
\<close>

datatype mode =
    ExpectValue
  | ExpectValueOrEnd
  | ExpectKeyOrEnd
  | ExpectKey
  | ExpectColon
  | AfterValue
  | Done jsval
  | InString bool jsstring
  | InEscape bool jsstring
  | InUnicode bool jsstring "nat list"
  | InNumber numphase bool nat nat bool nat
  | InLiteral jsstring jsval

type_synonym pstate = "frame list \<times> mode"

definition is_ws :: "code_unit \<Rightarrow> bool" where
  "is_ws c = (c = 0x20 \<or> c = 0x09 \<or> c = 0x0A \<or> c = 0x0D)"

definition digit_val :: "code_unit \<Rightarrow> nat option" where
  "digit_val c = (if 0x30 \<le> c \<and> c \<le> 0x39 then Some (unat c - 48) else None)"

definition hex_val :: "code_unit \<Rightarrow> nat option" where
  "hex_val c =
     (if 0x30 \<le> c \<and> c \<le> 0x39 then Some (unat c - 48)
      else if 0x41 \<le> c \<and> c \<le> 0x46 then Some (unat c - 55)
      else if 0x61 \<le> c \<and> c \<le> 0x66 then Some (unat c - 87)
      else None)"

text \<open>A value is complete: it is the result, or goes into the innermost open frame.\<close>

fun complete :: "jsval \<Rightarrow> frame list \<Rightarrow> pstate option" where
  "complete v [] = Some ([], Done v)"
| "complete v (ArrF es # st) = Some (ArrF (v # es) # st, AfterValue)"
| "complete v (ObjF ms (Some k) # st) = Some (ObjF ((k, v) # ms) None # st, AfterValue)"
| "complete v (ObjF ms None # st) = None"

definition start_value :: "frame list \<Rightarrow> code_unit \<Rightarrow> pstate option" where
  "start_value st c =
     (if is_ws c then Some (st, ExpectValue)
      else if c = DQUOTE then Some (st, InString False [])
      else if c = 0x7B then Some (ObjF [] None # st, ExpectKeyOrEnd)
      else if c = 0x5B then Some (ArrF [] # st, ExpectValueOrEnd)
      else if c = 0x2D then Some (st, InNumber NMinus True 0 0 False 0)
      else if c = 0x30 then Some (st, InNumber NZero False 0 0 False 0)
      else if c = 0x74 then Some (st, InLiteral (js ''rue'') (JBool True))
      else if c = 0x66 then Some (st, InLiteral (js ''alse'') (JBool False))
      else if c = 0x6E then Some (st, InLiteral (js ''ull'') JNull)
      else (case digit_val c of
              Some d \<Rightarrow> Some (st, InNumber NInt False d 0 False 0)
            | None \<Rightarrow> None))"

definition close_array :: "frame list \<Rightarrow> pstate option" where
  "close_array st =
     (case st of ArrF es # st' \<Rightarrow> complete (JArr (rev es)) st' | _ \<Rightarrow> None)"

definition close_object :: "frame list \<Rightarrow> pstate option" where
  "close_object st =
     (case st of ObjF ms None # st' \<Rightarrow> complete (JObj (rev ms)) st' | _ \<Rightarrow> None)"

text \<open>After a value: a comma, the end of the open array or object, or white space.\<close>

definition after_value :: "frame list \<Rightarrow> mode \<Rightarrow> code_unit \<Rightarrow> pstate option" where
  "after_value st m c =
     (if is_ws c then Some (st, m)
      else (case m of
              Done v \<Rightarrow> None
            | _ \<Rightarrow>
               (if c = 0x2C then
                  (case st of
                     ArrF es # st' \<Rightarrow> Some (st, ExpectValue)
                   | ObjF ms k # st' \<Rightarrow> Some (st, ExpectKey)
                   | [] \<Rightarrow> None)
                else if c = 0x5D then close_array st
                else if c = 0x7D then close_object st
                else None)))"

definition number_value :: "bool \<Rightarrow> nat \<Rightarrow> nat \<Rightarrow> bool \<Rightarrow> nat \<Rightarrow> jsval" where
  "number_value neg mant fd eneg ex =
     JNum (if neg then - int mant else int mant)
          ((if eneg then - int ex else int ex) - int fd)"

definition number_ends :: "numphase \<Rightarrow> bool" where
  "number_ends ph = (ph = NZero \<or> ph = NInt \<or> ph = NFrac \<or> ph = NExpDigits)"

text \<open>
  One more code unit of a number, or \<open>None\<close> when the number cannot go on with it.
\<close>

definition number_step :: "numphase \<Rightarrow> bool \<Rightarrow> nat \<Rightarrow> nat \<Rightarrow> bool \<Rightarrow> nat \<Rightarrow> code_unit \<Rightarrow> mode option" where
  "number_step ph neg mant fd eneg ex c =
     (case digit_val c of
        Some d \<Rightarrow>
          (if ph = NMinus then
             Some (InNumber (if d = 0 then NZero else NInt) neg d 0 eneg ex)
           else if ph = NInt then Some (InNumber NInt neg (mant * 10 + d) fd eneg ex)
           else if ph = NDot \<or> ph = NFrac
           then Some (InNumber NFrac neg (mant * 10 + d) (Suc fd) eneg ex)
           else if ph = NExp \<or> ph = NExpSign \<or> ph = NExpDigits
           then Some (InNumber NExpDigits neg mant fd eneg (ex * 10 + d))
           else None)
      | None \<Rightarrow>
          (if c = 0x2E \<and> (ph = NZero \<or> ph = NInt)
           then Some (InNumber NDot neg mant fd eneg ex)
           else if (c = 0x65 \<or> c = 0x45) \<and> (ph = NZero \<or> ph = NInt \<or> ph = NFrac)
           then Some (InNumber NExp neg mant fd eneg ex)
           else if (c = 0x2B \<or> c = 0x2D) \<and> ph = NExp
           then Some (InNumber NExpSign neg mant fd (c = 0x2D) ex)
           else None))"

definition escape_unit :: "code_unit \<Rightarrow> code_unit option" where
  "escape_unit c =
     (if c = DQUOTE \<or> c = BACKSLASH \<or> c = 0x2F then Some c
      else if c = 0x62 then Some 0x08
      else if c = 0x66 then Some 0x0C
      else if c = 0x6E then Some 0x0A
      else if c = 0x72 then Some 0x0D
      else if c = 0x74 then Some 0x09
      else None)"

text \<open>A string is complete: a key waits for its colon, any other string is a value.\<close>

definition end_string :: "frame list \<Rightarrow> bool \<Rightarrow> jsstring \<Rightarrow> pstate option" where
  "end_string st is_key s =
     (if is_key then
        (case st of
           ObjF ms None # st' \<Rightarrow> Some (ObjF ms (Some s) # st', ExpectColon)
         | _ \<Rightarrow> None)
      else complete (JStr s) st)"

fun parse_step :: "pstate \<Rightarrow> code_unit \<Rightarrow> pstate option" where
  "parse_step (st, ExpectValue) c = start_value st c"
| "parse_step (st, ExpectValueOrEnd) c =
     (if c = 0x5D then close_array st
      else if is_ws c then Some (st, ExpectValueOrEnd)
      else start_value st c)"
| "parse_step (st, ExpectKeyOrEnd) c =
     (if c = 0x7D then close_object st
      else if is_ws c then Some (st, ExpectKeyOrEnd)
      else if c = DQUOTE then Some (st, InString True [])
      else None)"
| "parse_step (st, ExpectKey) c =
     (if is_ws c then Some (st, ExpectKey)
      else if c = DQUOTE then Some (st, InString True [])
      else None)"
| "parse_step (st, ExpectColon) c =
     (if is_ws c then Some (st, ExpectColon)
      else if c = 0x3A then Some (st, ExpectValue)
      else None)"
| "parse_step (st, AfterValue) c = after_value st AfterValue c"
| "parse_step (st, Done v) c = after_value st (Done v) c"
| "parse_step (st, InString is_key acc) c =
     (if c = DQUOTE then end_string st is_key (rev acc)
      else if c = BACKSLASH then Some (st, InEscape is_key acc)
      else if c < 0x20 then None
      else Some (st, InString is_key (c # acc)))"
| "parse_step (st, InEscape is_key acc) c =
     (if c = 0x75 then Some (st, InUnicode is_key acc [])
      else (case escape_unit c of
              Some u \<Rightarrow> Some (st, InString is_key (u # acc))
            | None \<Rightarrow> None))"
| "parse_step (st, InUnicode is_key acc ds) c =
     (case hex_val c of
        None \<Rightarrow> None
      | Some h \<Rightarrow>
          (if length ds = 3
           then Some (st, InString is_key
                        (of_nat (foldl (\<lambda>n d. n * 16 + d) 0 (ds @ [h])) # acc))
           else Some (st, InUnicode is_key acc (ds @ [h]))))"
| "parse_step (st, InNumber ph neg mant fd eneg ex) c =
     (case number_step ph neg mant fd eneg ex c of
        Some m \<Rightarrow> Some (st, m)
      | None \<Rightarrow>
          (if number_ends ph then
             (case complete (number_value neg mant fd eneg ex) st of
                Some (st', m') \<Rightarrow> after_value st' m' c
              | None \<Rightarrow> None)
           else None))"
| "parse_step (st, InLiteral rest v) c =
     (case rest of
        [] \<Rightarrow> None
      | r # rs \<Rightarrow>
          (if c = r then (if rs = [] then complete v st else Some (st, InLiteral rs v))
           else None))"

fun parse_run :: "pstate \<Rightarrow> jsstring \<Rightarrow> pstate option" where
  "parse_run s [] = Some s"
| "parse_run s (c # cs) =
     (case parse_step s c of None \<Rightarrow> None | Some s' \<Rightarrow> parse_run s' cs)"

text \<open>At the end of the text the value must be complete.\<close>

fun parse_end :: "pstate \<Rightarrow> jsval option" where
  "parse_end ([], Done v) = Some v"
| "parse_end ([], InNumber ph neg mant fd eneg ex) =
     (if number_ends ph then Some (number_value neg mant fd eneg ex) else None)"
| "parse_end s = None"

definition node_JSON_parse :: "jsstring \<Rightarrow> js_error + jsval" where
  "node_JSON_parse s =
     (case parse_run ([], ExpectValue) s of
        None \<Rightarrow> Inl (SyntaxError (js ''Unexpected token in JSON''))
      | Some final \<Rightarrow>
          (case parse_end final of
             None \<Rightarrow> Inl (SyntaxError (js ''Unexpected end of JSON input''))
           | Some v \<Rightarrow> Inr v))"

definition node :: platform where
  "node =
     \<lparr>Buffer_base64_utf8 = node_Buffer_base64_utf8,
      JSON_parse = node_JSON_parse\<rparr>"

text \<open>Two networks: one that fails, and one that answers every call with a given text.\<close>

definition offline :: network where
  "offline call = Inl (Error (js ''fetch failed''))"

definition replying :: "jsstring \<Rightarrow> network" where
  "replying responseText call = Inr responseText"

section \<open>Reading results\<close>

text \<open>The answer of a result of \<open>decodeResponse\<close>, when it returned.\<close>

definition answer :: "js_error + (jsstring \<times> jsstring) \<Rightarrow> js_error + jsstring" where
  "answer r = map_sum id snd r"


section \<open>The answer as the specification words it\<close>

text \<open>
  The specification takes the answer from the last segment that holds \<open>bytes\<close>, wherever
  it stands: the fourth quote-separated field of that segment, decoded and with the
  three replacements applied. This definition follows those words, not the code; it is
  what the answer of \<open>decodeResponse\<close> is compared with.
\<close>

definition payload_segments :: "jsstring \<Rightarrow> jsstring list" where
  "payload_segments responseText =
     filter (\<lambda>seg. str_includes seg BYTES) (split_js responseText MESSAGE_TYPE)"

definition spec_answer :: "platform \<Rightarrow> jsstring \<Rightarrow> jsstring option" where
  "spec_answer P responseText =
     (case rev (payload_segments responseText) of
        [] \<Rightarrow> None
      | seg # earlier \<Rightarrow>
          (let parts = split_js seg [DQUOTE] in
           if 3 < length parts then
             (case Buffer_base64_utf8 P (parts ! 3) of
                Inr decoded \<Rightarrow> Some (normalize_text decoded)
              | Inl err \<Rightarrow> None)
           else None))"

section \<open>Facts about the string operations\<close>

lemma split_at_not_Nil: "split_at sep s \<noteq> []"
  by (induction sep s rule: split_at.induct) (auto split: list.splits)

lemma split_js_not_Nil: "sep \<noteq> [] \<Longrightarrow> split_js s sep \<noteq> []"
  by (simp add: split_js_def split_at_not_Nil)

lemma str_includes_sublist: "str_includes s p = sublist p s"
  unfolding str_includes_def
  by (induction s) (auto simp: sublist_Cons_right)

lemma replace_g_single: "replace_g [q] [] s = filter (\<lambda>c. c \<noteq> q) s"
  by (induction s) auto

lemma set_replace_g_Nil: "set (replace_g pat [] s) \<subseteq> set s"
proof (induction pat "[] :: 'a list" s rule: replace_g.induct)
  case (1 pat)
  then show ?case by simp
next
  case (2 pat x xs)
  show ?case
  proof (cases "pat \<noteq> [] \<and> prefix pat (x # xs)")
    case True
    with 2 have "set (replace_g pat [] (drop (length pat) (x # xs))) \<subseteq> set (drop (length pat) (x # xs))"
      by simp
    also have "\<dots> \<subseteq> set (x # xs)" by (rule set_drop_subset)
    finally show ?thesis using True by simp
  next
    case False
    with 2 show ?thesis by auto
  qed
qed

lemma replace_g_absent: "\<not> str_includes s pat \<Longrightarrow> replace_g pat rep s = s"
  unfolding str_includes_def
  by (induction s) (auto split: if_splits)

lemma normalize_text_no_quote: "DQUOTE \<notin> set (normalize_text s)"
proof -
  have "set (normalize_text s) \<subseteq> set (replace_g [DQUOTE] [] s)"
    unfolding normalize_text_def
    by (meson set_replace_g_Nil subset_trans)
  then show ?thesis by (auto simp: replace_g_single)
qed

lemma normalize_text_fixed:
  assumes "\<not> str_includes t NOISE_INPUT" "\<not> str_includes t NOISE_SOURCE" "DQUOTE \<notin> set t"
  shows "normalize_text t = t"
proof -
  have "replace_g [DQUOTE] [] t = t"
    using assms(3) by (auto simp: replace_g_single filter_id_conv)
  then show ?thesis
    by (simp add: normalize_text_def replace_g_absent assms)
qed

section \<open>The shape of a result\<close>

lemma decodeResponse_Inr:
  "decodeResponse P responseText = Inr (tr, ans) \<Longrightarrow>
     \<exists>out s. decodeLog P responseText = Inr (out, JStr s) \<and> tr = join_js out NEWLINE
       \<and> ans = normalize_text s"
  by (auto simp: decodeResponse_def split: sum.splits prod.splits jsval.splits)

lemma decodeResponse_of_lastStage:
  "lastStage P responseText (last (split_js responseText MESSAGE_TYPE)) = Inr (pushed, JStr s) \<Longrightarrow>
     \<exists>tr. decodeResponse P responseText = Inr (tr, normalize_text s)"
  by (simp add: decodeResponse_def decodeLog_def Let_def)

lemma decodeResponse_empty_answer:
  assumes "\<not> str_includes (last (split_js responseText MESSAGE_TYPE)) BYTES"
      and "\<not> str_includes responseText searchString"
  shows "\<exists>tr. decodeResponse P responseText = Inr (tr, [])"
proof -
  have "lastStage P responseText (last (split_js responseText MESSAGE_TYPE))
          = Inr ([js ''no bytes in last response''], JStr [])"
    using assms by (simp add: lastStage_def str_includes_def)
  from decodeResponse_of_lastStage [OF this] show ?thesis
    by (simp add: normalize_text_def)
qed

lemma answer_of_lastStage:
  assumes "split_js responseText MESSAGE_TYPE = segs"
      and "lastStage P responseText (last segs) = Inr (pushed, JStr s)"
  shows "answer (decodeResponse P responseText) = Inr (normalize_text s)"
  using decodeResponse_of_lastStage [of P responseText pushed s] assms
  by (auto simp: answer_def)

lemma normalize_empty: "normalize_text [] = []"
  by (simp add: normalize_text_def)

lemmas literal_defs =
  js_def MESSAGE_TYPE_def BYTES_def DQUOTE_def BACKSLASH_def searchString_def CLOSING_def
  NOISE_INPUT_def NOISE_SOURCE_def NEWLINE_def TEXT_KEY_def

lemmas string_defs = literal_defs str_includes_def split_js_def

lemmas base64_defs =
  node_Buffer_base64_utf8_def base64_bytes_def unbase64_def toString_utf8_def
  utf8_lead_def utf8_init_def utf16_units_def

lemmas json_defs =
  node_JSON_parse_def start_value_def after_value_def close_array_def close_object_def
  end_string_def number_step_def number_ends_def number_value_def escape_unit_def
  is_ws_def digit_val_def hex_val_def

section \<open>Evaluations shared by the examples\<close>

lemma split_at_absent: "\<not> sublist sep s \<Longrightarrow> split_at sep s = [s]"
  by (induction s) (auto simp: sublist_Cons_right)

lemma split_at_single: "q \<notin> set a \<Longrightarrow> split_at [q] (a @ q # rest) = a # split_at [q] rest"
  by (induction a) auto

lemma hello_decoded: "node_Buffer_base64_utf8 (js ''SGVsbG8='') = Inr (js ''Hello'')"
  by (simp add: base64_defs js_def)

lemma world_decoded: "node_Buffer_base64_utf8 (js ''V29ybGQ='') = Inr (js ''World'')"
  by (simp add: base64_defs js_def)

lemma normalize_hello: "normalize_text (js ''Hello'') = js ''Hello''"
  by (simp add: normalize_text_def literal_defs)

lemma normalize_world: "normalize_text (js ''World'') = js ''World''"
  by (simp add: normalize_text_def literal_defs)

lemma lastStage_payload:
  assumes "str_includes lastResponse BYTES"
      and "3 < length (split_js lastResponse [DQUOTE])"
      and "Buffer_base64_utf8 P (split_js lastResponse [DQUOTE] ! 3) = Inr t"
  shows "lastStage P responseText lastResponse = Inr ([js ''Bytes in last response''], JStr t)"
  using assms by (simp add: lastStage_def Let_def)

lemma hello_fields:
  \<open>split_js (js ''{"bytes":"SGVsbG8="}'') [DQUOTE]
     = [js ''{'', js ''bytes'', js '':'', js ''SGVsbG8='', js ''}'']\<close>
  by (simp add: string_defs)

lemma world_fields:
  \<open>split_js (js ''{"bytes":"V29ybGQ="}'') [DQUOTE]
     = [js ''{'', js ''bytes'', js '':'', js ''V29ybGQ='', js ''}'']\<close>
  by (simp add: string_defs)

lemma hello_includes_bytes: \<open>str_includes (js ''{"bytes":"SGVsbG8="}'') BYTES\<close>
  by (simp add: string_defs)

lemma world_includes_bytes: \<open>str_includes (js ''{"bytes":"V29ybGQ="}'') BYTES\<close>
  by (simp add: string_defs)

section \<open>The request that the handler sends\<close>

lemma lambdaHandler_calls:
  "fst (lambdaHandler P net event) =
     [\<lparr>req_url = js ''https://bedrock-agent-runtime.'' @ theRegion
                  @ js ''.amazonaws.com/agents/'' @ agentId
                  @ js ''/agentAliases/'' @ agentAliasId
                  @ js ''/sessions/'' @ sessionId event @ js ''/text'',
       req_method = js ''POST'',
       req_body = stringify_myobj
                    \<lparr>inputText = question event, enableTrace = True,
                     endSession = (event_endSession event = Boolean True
                                   \<or> event_endSession event = String (js ''true''))\<rparr>,
       req_headers = [(js ''content-type'', js ''application/json''),
                      (js ''accept'', js ''application/json'')],
       req_service = js ''bedrock'', req_region = theRegion\<rparr>]"
  by (simp add: lambdaHandler_def askQuestion_def Let_def)

lemmas quote_defs =
  stringify_string_def quote_unit_def is_high_surrogate_def is_low_surrogate_def
  js_def DQUOTE_def BACKSLASH_def

section \<open>The loop over the segments\<close>







section \<open>The claims\<close>

text \<open>
  C1, as amended: when the final segment of the response text holds \<open>bytes\<close> and has a
  fourth quote-separated field that the decoder accepts, the answer is that field
  decoded, with the three replacements applied. The claim as stated, that the last
  segment with \<open>bytes\<close> gives the answer wherever it stands, fails when such a segment
  is followed by another one: the counterexample comes after the witness.
\<close>

theorem answer_from_final_segment:
  assumes "str_includes (last (split_js responseText MESSAGE_TYPE)) BYTES"
      and "3 < length (split_js (last (split_js responseText MESSAGE_TYPE)) [DQUOTE])"
      and "Buffer_base64_utf8 P (split_js (last (split_js responseText MESSAGE_TYPE)) [DQUOTE] ! 3)
             = Inr decoded"
  shows "\<exists>tr. decodeResponse P responseText = Inr (tr, normalize_text decoded)"
  by (rule decodeResponse_of_lastStage) (rule lastStage_payload [OF assms])

lemma two_payloads_split:
  \<open>split_js (js ''{"bytes":"SGVsbG8="}:message-type{"bytes":"V29ybGQ="}'') MESSAGE_TYPE
     = [js ''{"bytes":"SGVsbG8="}'', js ''{"bytes":"V29ybGQ="}'']\<close>
  by (simp add: string_defs)

theorem answer_from_final_segment_witness:
  \<open>str_includes (last (split_js (js ''{"bytes":"SGVsbG8="}:message-type{"bytes":"V29ybGQ="}'') MESSAGE_TYPE)) BYTES
   \<and> answer (decodeResponse node (js ''{"bytes":"SGVsbG8="}:message-type{"bytes":"V29ybGQ="}''))
       = Inr (js ''World'')\<close>
proof -
  have l: \<open>last (split_js (js ''{"bytes":"SGVsbG8="}:message-type{"bytes":"V29ybGQ="}'') MESSAGE_TYPE)
             = js ''{"bytes":"V29ybGQ="}''\<close>
    by (simp add: two_payloads_split)
  have f: \<open>3 < length (split_js (js ''{"bytes":"V29ybGQ="}'') [DQUOTE])\<close>
    by (simp add: world_fields)
  have d: \<open>Buffer_base64_utf8 node (split_js (js ''{"bytes":"V29ybGQ="}'') [DQUOTE] ! 3) = Inr (js ''World'')\<close>
    by (simp add: world_fields node_def world_decoded)
  from answer_from_final_segment [of \<open>js ''{"bytes":"SGVsbG8="}:message-type{"bytes":"V29ybGQ="}''\<close> node \<open>js ''World''\<close>]
  show ?thesis
    unfolding l using world_includes_bytes f d by (auto simp: answer_def normalize_world)
qed


text \<open>
  The counterexample to C1 as stated: the segment with \<open>bytes\<close> is not the final one, the
  specification's answer is \<open>Hello\<close>, and \<open>decodeResponse\<close> returns the empty answer.
\<close>

lemma middle_payload_split:
  \<open>split_js (js ''x:message-type{"bytes":"SGVsbG8="}:message-typeend'') MESSAGE_TYPE
     = [js ''x'', js ''{"bytes":"SGVsbG8="}'', js ''end'']\<close>
  by (simp add: string_defs)

lemma middle_payload_spec:
  \<open>spec_answer node (js ''x:message-type{"bytes":"SGVsbG8="}:message-typeend'') = Some (js ''Hello'')\<close>
proof -
  have \<open>payload_segments (js ''x:message-type{"bytes":"SGVsbG8="}:message-typeend'')
          = [js ''{"bytes":"SGVsbG8="}'']\<close>
    unfolding payload_segments_def middle_payload_split
    by (simp add: hello_includes_bytes) (simp add: string_defs)
  then show ?thesis
    by (simp add: spec_answer_def hello_fields node_def hello_decoded normalize_hello)
qed

lemma middle_payload_lastStage:
  \<open>lastStage node (js ''x:message-type{"bytes":"SGVsbG8="}:message-typeend'') (js ''end'')
     = Inr ([js ''no bytes in last response''], JStr [])\<close>
proof -
  have a: \<open>\<not> str_includes (js ''end'') BYTES\<close>
    by (simp add: string_defs)
  have b: \<open>indexOf (js ''x:message-type{"bytes":"SGVsbG8="}:message-typeend'') searchString = None\<close>
    by (simp add: string_defs)
  show ?thesis
    unfolding lastStage_def by (simp only: a b Let_def if_False option.case)
qed

theorem answer_ignores_earlier_payload:
  \<open>spec_answer node (js ''x:message-type{"bytes":"SGVsbG8="}:message-typeend'') = Some (js ''Hello'')
   \<and> answer (decodeResponse node (js ''x:message-type{"bytes":"SGVsbG8="}:message-typeend'')) = Inr []\<close>
proof -
  have \<open>normalize_text [] = []\<close>
    by (simp add: normalize_text_def)
  with decodeResponse_of_lastStage [of node \<open>js ''x:message-type{"bytes":"SGVsbG8="}:message-typeend''\<close>]
  show ?thesis
    by (auto simp: middle_payload_split middle_payload_lastStage middle_payload_spec answer_def)
qed

lemma number_text_split:
  \<open>split_js (js ''finalResponse":{"text":1,"a":""}'') MESSAGE_TYPE
     = [js ''finalResponse":{"text":1,"a":""}'']\<close>
  by (simp add: string_defs)

lemma number_text_parsed:
  \<open>node_JSON_parse (js ''{"text":1,"a":""}'') = Inr (JObj [(js ''text'', JNum 1 0), (js ''a'', JStr [])])\<close>
  by (simp add: json_defs literal_defs)

lemma number_text_lastStage:
  \<open>lastStage node (js ''finalResponse":{"text":1,"a":""}'') (js ''finalResponse":{"text":1,"a":""}'')
     = Inr ([js ''no bytes in last response''], JNum 1 0)\<close>
proof -
  have a: \<open>\<not> str_includes (js ''finalResponse":{"text":1,"a":""}'') BYTES\<close>
    by (simp add: string_defs)
  have b: \<open>indexOf (js ''finalResponse":{"text":1,"a":""}'') searchString = Some 0\<close>
    by (simp add: string_defs)
  have c: \<open>drop (0 + length searchString) (js ''finalResponse":{"text":1,"a":""}'') = js ''{"text":1,"a":""}''\<close>
    by (simp add: string_defs)
  have d: \<open>indexOf (js ''{"text":1,"a":""}'') CLOSING = Some 15\<close>
    by (simp add: string_defs)
  have e: \<open>take (15 + 2) (js ''{"text":1,"a":""}'') = js ''{"text":1,"a":""}''\<close>
    by (simp add: string_defs)
  have f: \<open>get_text (JObj [(js ''text'', JNum 1 0), (js ''a'', JStr [])]) = Inr (JNum 1 0)\<close>
    by (simp add: literal_defs)
  show ?thesis
    unfolding lastStage_def
    by (simp only: a b c d e f number_text_parsed node_def Let_def if_False option.case sum.case
          platform.simps truthy.simps) simp
qed

text \<open>
  C2: \<open>decodeResponse\<close> is meant to return for every response text. It does not: when
  the text after \<open>finalResponse":\<close> parses as JSON and its \<open>text\<close> member is a number other
  than zero, \<open>finalResponse\<close> is that number, and the first replacement throws outside
  every try block.
\<close>

theorem decodeResponse_raises_on_number_text:
  \<open>decodeResponse node (js ''finalResponse":{"text":1,"a":""}'')
     = Inl (TypeError (js ''finalResponse.replace is not a function''))\<close>
  by (simp add: decodeResponse_def decodeLog_def Let_def number_text_split number_text_lastStage)

lemma lastStage_fallback:
  assumes "\<not> str_includes lastResponse BYTES"
      and "indexOf responseText searchString = Some startIdx"
      and "indexOf (drop (startIdx + length searchString) responseText) CLOSING = Some endIdx"
      and "JSON_parse P (take (endIdx + 2) (drop (startIdx + length searchString) responseText))
             = Inr parsed"
      and "get_text parsed = Inr (JStr t)"
  shows "lastStage P responseText lastResponse = Inr ([js ''no bytes in last response''], JStr t)"
  using assms by (simp add: lastStage_def Let_def)

text \<open>
  C3, as amended: when no segment holds \<open>bytes\<close>, the marker \<open>finalResponse":\<close> occurs, a
  \<open>"}\<close> follows it, the text from the marker's end up to and including the first such
  \<open>"}\<close> parses as JSON, and the \<open>text\<close> member of the parsed value is a string, then the
  answer is that string with the three replacements applied. The claim as stated has
  none of the last three conditions, and fails where the extracted text does not parse:
  the counterexample comes after the witness.
\<close>

theorem answer_from_finalResponse_text:
  assumes "\<forall>seg \<in> set (split_js responseText MESSAGE_TYPE). \<not> str_includes seg BYTES"
      and "indexOf responseText searchString = Some startIdx"
      and "indexOf (drop (startIdx + length searchString) responseText) CLOSING = Some endIdx"
      and "JSON_parse P (take (endIdx + 2) (drop (startIdx + length searchString) responseText))
             = Inr parsed"
      and "get_text parsed = Inr (JStr t)"
  shows "\<exists>tr. decodeResponse P responseText = Inr (tr, normalize_text t)"
proof -
  have "split_js responseText MESSAGE_TYPE \<noteq> []"
    by (rule split_js_not_Nil) (simp add: MESSAGE_TYPE_def js_def)
  then have "last (split_js responseText MESSAGE_TYPE) \<in> set (split_js responseText MESSAGE_TYPE)"
    by (rule last_in_set)
  with assms(1) have "\<not> str_includes (last (split_js responseText MESSAGE_TYPE)) BYTES"
    by blast
  from decodeResponse_of_lastStage [OF lastStage_fallback [OF this assms(2-5)]]
  show ?thesis .
qed

theorem answer_from_finalResponse_text_witness:
  \<open>payload_segments
       (js ''{"trace":1,"finalResponse":{"text":"{input:{value:say '' @ [BACKSLASH] @ js ''"hi''
          @ [BACKSLASH] @ js ''",source:null}}"}}'') = []
   \<and> indexOf
         (js ''{"trace":1,"finalResponse":{"text":"{input:{value:say '' @ [BACKSLASH] @ js ''"hi''
            @ [BACKSLASH] @ js ''",source:null}}"}}'') searchString = Some 12
   \<and> node_JSON_parse
         (js ''{"text":"{input:{value:say '' @ [BACKSLASH] @ js ''"hi''
            @ [BACKSLASH] @ js ''",source:null}}"}'')
       = Inr (JObj [(js ''text'', JStr (js ''{input:{value:say "hi",source:null}}''))])
   \<and> answer (decodeResponse node
         (js ''{"trace":1,"finalResponse":{"text":"{input:{value:say '' @ [BACKSLASH] @ js ''"hi''
            @ [BACKSLASH] @ js ''",source:null}}"}}''))
       = Inr (js ''say hi'')\<close>
proof -
  let ?body = \<open>js ''{"trace":1,"finalResponse":{"text":"{input:{value:say '' @ [BACKSLASH] @ js ''"hi''
                  @ [BACKSLASH] @ js ''",source:null}}"}}''\<close>
  let ?part1 = \<open>js ''{"text":"{input:{value:say '' @ [BACKSLASH] @ js ''"hi''
                  @ [BACKSLASH] @ js ''",source:null}}"}}''\<close>
  let ?part2 = \<open>js ''{"text":"{input:{value:say '' @ [BACKSLASH] @ js ''"hi''
                  @ [BACKSLASH] @ js ''",source:null}}"}''\<close>
  let ?text = \<open>js ''{input:{value:say "hi",source:null}}''\<close>
  have s: "split_js ?body MESSAGE_TYPE = [?body]"
    by (simp add: string_defs BACKSLASH_def)
  have nb: "\<not> str_includes ?body BYTES"
    by (simp add: string_defs BACKSLASH_def)
  have a: "\<forall>seg \<in> set (split_js ?body MESSAGE_TYPE). \<not> str_includes seg BYTES"
    unfolding s using nb by simp
  have b: "indexOf ?body searchString = Some 12"
    by (simp add: string_defs BACKSLASH_def)
  have c: "drop (12 + length searchString) ?body = ?part1"
    by (simp add: string_defs BACKSLASH_def)
  have d: "indexOf ?part1 CLOSING = Some 47"
    by (simp add: string_defs BACKSLASH_def)
  have e: "take (47 + 2) ?part1 = ?part2"
    by (simp add: js_def)
  have p: "node_JSON_parse ?part2 = Inr (JObj [(js ''text'', JStr ?text)])"
    by (simp add: json_defs literal_defs)
  have g: "get_text (JObj [(js ''text'', JStr ?text)]) = Inr (JStr ?text)"
    by (simp add: literal_defs)
  have n: "normalize_text ?text = js ''say hi''"
    by (simp add: normalize_text_def literal_defs)
  have "\<exists>tr. decodeResponse node ?body = Inr (tr, normalize_text ?text)"
  proof (rule answer_from_finalResponse_text [OF a b])
    show "indexOf (drop (12 + length searchString) ?body) CLOSING = Some 47"
      unfolding c by (rule d)
    show "JSON_parse node (take (47 + 2) (drop (12 + length searchString) ?body))
            = Inr (JObj [(js ''text'', JStr ?text)])"
      unfolding c e by (simp only: node_def platform.simps p)
    show "get_text (JObj [(js ''text'', JStr ?text)]) = Inr (JStr ?text)"
      by (rule g)
  qed
  then have "answer (decodeResponse node ?body) = Inr (js ''say hi'')"
    unfolding n by (auto simp: answer_def)
  moreover have "payload_segments ?body = []"
    unfolding payload_segments_def s using nb by simp
  ultimately show ?thesis using b p by blast
qed

text \<open>
  The counterexample to C3 as stated: no segment holds \<open>bytes\<close> and the marker occurs,
  but the text up to the first \<open>"}\<close> is a JSON string followed by more text, the parser
  rejects it, the error is caught and the answer is empty, not \<open>Hi there\<close>.
\<close>

lemma unparsable_split:
  \<open>split_js (js ''finalResponse":"{"text":"Hi there"}"}'') MESSAGE_TYPE
     = [js ''finalResponse":"{"text":"Hi there"}"}'']\<close>
  by (simp add: string_defs)

lemma unparsable_rejected:
  \<open>node_JSON_parse (js ''"{"text":"Hi there"}'')
     = Inl (SyntaxError (js ''Unexpected token in JSON''))\<close>
  by (simp add: json_defs literal_defs)

lemma unparsable_lastStage:
  \<open>lastStage node (js ''finalResponse":"{"text":"Hi there"}"}'')
       (js ''finalResponse":"{"text":"Hi there"}"}'')
     = Inr ([js ''no bytes in last response'',
             js ''Error parsing JSON: Unexpected token in JSON''], JStr [])\<close>
proof -
  have a: \<open>\<not> str_includes (js ''finalResponse":"{"text":"Hi there"}"}'') BYTES\<close>
    by (simp add: string_defs)
  have b: \<open>indexOf (js ''finalResponse":"{"text":"Hi there"}"}'') searchString = Some 0\<close>
    by (simp add: string_defs)
  have c: \<open>drop (0 + length searchString) (js ''finalResponse":"{"text":"Hi there"}"}'')
             = js ''"{"text":"Hi there"}"}''\<close>
    by (simp add: string_defs)
  have d: \<open>indexOf (js ''"{"text":"Hi there"}"}'') CLOSING = Some 18\<close>
    by (simp add: string_defs)
  have e: \<open>take (18 + 2) (js ''"{"text":"Hi there"}"}'') = js ''"{"text":"Hi there"}''\<close>
    by (simp add: js_def)
  show ?thesis
    unfolding lastStage_def
    by (simp only: a b c d e unparsable_rejected node_def Let_def if_False option.case sum.case
          platform.simps message.simps)
       (simp add: js_def)
qed

theorem unparsable_finalResponse_gives_empty_answer:
  \<open>payload_segments (js ''finalResponse":"{"text":"Hi there"}"}'') = []
   \<and> indexOf (js ''finalResponse":"{"text":"Hi there"}"}'') searchString = Some 0
   \<and> indexOf (js ''"{"text":"Hi there"}"}'') CLOSING = Some 18
   \<and> isl (node_JSON_parse (js ''"{"text":"Hi there"}''))
   \<and> answer (decodeResponse node (js ''finalResponse":"{"text":"Hi there"}"}'')) = Inr []\<close>
proof -
  have \<open>last [js ''finalResponse":"{"text":"Hi there"}"}'']
          = js ''finalResponse":"{"text":"Hi there"}"}''\<close>
    by simp
  with answer_of_lastStage [OF unparsable_split] unparsable_lastStage
  have \<open>answer (decodeResponse node (js ''finalResponse":"{"text":"Hi there"}"}'')) = Inr []\<close>
    by (simp add: normalize_empty)
  moreover have \<open>payload_segments (js ''finalResponse":"{"text":"Hi there"}"}'') = []\<close>
    unfolding payload_segments_def unparsable_split by (simp add: string_defs)
  moreover have \<open>indexOf (js ''finalResponse":"{"text":"Hi there"}"}'') searchString = Some 0\<close>
    by (simp add: string_defs)
  moreover have \<open>indexOf (js ''"{"text":"Hi there"}"}'') CLOSING = Some 18\<close>
    by (simp add: string_defs)
  moreover have \<open>isl (node_JSON_parse (js ''"{"text":"Hi there"}''))\<close>
    by (simp add: unparsable_rejected)
  ultimately show ?thesis by blast
qed

lemma bang_fields:
  \<open>split_js (js ''{"bytes":"!"}'') [DQUOTE] = [js ''{'', js ''bytes'', js '':'', js ''!'', js ''}'']\<close>
  by (simp add: string_defs)

lemma bang_includes_bytes: \<open>str_includes (js ''{"bytes":"!"}'') BYTES\<close>
  by (simp add: string_defs)

lemma bang_decoded: "node_Buffer_base64_utf8 (js ''!'') = Inr []"
  by (simp add: base64_defs js_def)

lemma loop_hello: \<open>loopBody node idx (js ''{"bytes":"SGVsbG8="}'') = [js ''Hello'']\<close>
  by (simp add: loopBody_def hello_includes_bytes hello_fields node_def hello_decoded)

lemma loop_world: \<open>loopBody node idx (js ''{"bytes":"V29ybGQ="}'') = [js ''World'']\<close>
  by (simp add: loopBody_def world_includes_bytes world_fields node_def world_decoded)

lemma loop_bang: \<open>loopBody node idx (js ''{"bytes":"!"}'') = [[]]\<close>
  by (simp add: loopBody_def bang_includes_bytes bang_fields node_def bang_decoded)

lemma middle_bad_split:
  \<open>split_js (js ''{"bytes":"SGVsbG8="}:message-type{"bytes":"!"}:message-type{"bytes":"V29ybGQ="}'')
       MESSAGE_TYPE
     = [js ''{"bytes":"SGVsbG8="}'', js ''{"bytes":"!"}'', js ''{"bytes":"V29ybGQ="}'']\<close>
  by (simp add: string_defs)

lemma middle_bad_log:
  \<open>decodeLog node
       (js ''{"bytes":"SGVsbG8="}:message-type{"bytes":"!"}:message-type{"bytes":"V29ybGQ="}'')
     = Inr ([js ''Decoded response: {"bytes":"SGVsbG8="}:message-type{"bytes":"!"}:message-type{"bytes":"V29ybGQ="}'',
             js ''Split Response: ''
               @ stringify_strings [js ''{"bytes":"SGVsbG8="}'', js ''{"bytes":"!"}'',
                                    js ''{"bytes":"V29ybGQ="}''],
             js ''length of split: 3'',
             js ''Hello'', [], js ''World'',
             js ''Lst Response: {"bytes":"V29ybGQ="}'',
             js ''Bytes in last response''], JStr (js ''World''))\<close>
proof -
  have l: \<open>lastStage node
          (js ''{"bytes":"SGVsbG8="}:message-type{"bytes":"!"}:message-type{"bytes":"V29ybGQ="}'')
          (js ''{"bytes":"V29ybGQ="}'')
        = Inr ([js ''Bytes in last response''], JStr (js ''World''))\<close>
    by (rule lastStage_payload)
       (simp_all add: world_includes_bytes world_fields node_def world_decoded)
  show ?thesis
    unfolding decodeLog_def middle_bad_split
    by (simp add: l loop_hello loop_world loop_bang Let_def) (simp add: js_def)
qed

lemma middle_bad_no_error_line:
  \<open>\<not> str_includes
       (join_js
          [js ''Decoded response: {"bytes":"SGVsbG8="}:message-type{"bytes":"!"}:message-type{"bytes":"V29ybGQ="}'',
           js ''Split Response: ''
             @ stringify_strings [js ''{"bytes":"SGVsbG8="}'', js ''{"bytes":"!"}'',
                                  js ''{"bytes":"V29ybGQ="}''],
           js ''length of split: 3'',
           js ''Hello'', [], js ''World'',
           js ''Lst Response: {"bytes":"V29ybGQ="}'',
           js ''Bytes in last response''] NEWLINE)
       (js ''Error decoding base64'')\<close>
  by (simp add: stringify_strings_def quote_defs NEWLINE_def str_includes_def)

lemma last_bad_split:
  \<open>split_js (js ''{"bytes":"SGVsbG8="}:message-type{"bytes":"V29ybGQ="}:message-type{"bytes":"!"}'')
       MESSAGE_TYPE
     = [js ''{"bytes":"SGVsbG8="}'', js ''{"bytes":"V29ybGQ="}'', js ''{"bytes":"!"}'']\<close>
  by (simp add: string_defs)

lemma last_bad_log:
  \<open>decodeLog node
       (js ''{"bytes":"SGVsbG8="}:message-type{"bytes":"V29ybGQ="}:message-type{"bytes":"!"}'')
     = Inr ([js ''Decoded response: {"bytes":"SGVsbG8="}:message-type{"bytes":"V29ybGQ="}:message-type{"bytes":"!"}'',
             js ''Split Response: ''
               @ stringify_strings [js ''{"bytes":"SGVsbG8="}'', js ''{"bytes":"V29ybGQ="}'',
                                    js ''{"bytes":"!"}''],
             js ''length of split: 3'',
             js ''Hello'', js ''World'', [],
             js ''Lst Response: {"bytes":"!"}'',
             js ''Bytes in last response''], JStr [])\<close>
proof -
  have l: \<open>lastStage node
          (js ''{"bytes":"SGVsbG8="}:message-type{"bytes":"V29ybGQ="}:message-type{"bytes":"!"}'')
          (js ''{"bytes":"!"}'')
        = Inr ([js ''Bytes in last response''], JStr [])\<close>
    by (rule lastStage_payload)
       (simp_all add: bang_includes_bytes bang_fields node_def bang_decoded)
  show ?thesis
    unfolding decodeLog_def last_bad_split
    by (simp add: l loop_hello loop_world loop_bang Let_def) (simp add: js_def)
qed

lemma last_bad_no_error_line:
  \<open>\<not> str_includes
       (join_js
          [js ''Decoded response: {"bytes":"SGVsbG8="}:message-type{"bytes":"V29ybGQ="}:message-type{"bytes":"!"}'',
           js ''Split Response: ''
             @ stringify_strings [js ''{"bytes":"SGVsbG8="}'', js ''{"bytes":"V29ybGQ="}'',
                                  js ''{"bytes":"!"}''],
           js ''length of split: 3'',
           js ''Hello'', js ''World'', [],
           js ''Lst Response: {"bytes":"!"}'',
           js ''Bytes in last response''] NEWLINE)
       (js ''Error decoding base64'')\<close>
  by (simp add: stringify_strings_def quote_defs NEWLINE_def str_includes_def)

text \<open>
  C4: a base64 failure in one segment with \<open>bytes\<close> is meant to be recorded as a line of
  the trace, that segment left out of the answer, and the answer computed from the
  valid segments. The loop has a catch block for it, but the decoder accepts every
  string, so the block never runs. With the malformed field \<open>!\<close> in the middle one of
  three segments, the trace holds an empty line for it and no error line, and the
  answer is \<open>World\<close>. With it in the final segment, which is decoded again outside any
  try block, there is no error line either, and the answer is the empty decoding of
  the malformed field, not the text of a valid segment.
\<close>

theorem malformed_base64_not_recovered:
  \<open>answer (decodeResponse node
       (js ''{"bytes":"SGVsbG8="}:message-type{"bytes":"!"}:message-type{"bytes":"V29ybGQ="}''))
     = Inr (js ''World'')
   \<and> (case decodeResponse node
         (js ''{"bytes":"SGVsbG8="}:message-type{"bytes":"!"}:message-type{"bytes":"V29ybGQ="}'') of
         Inr (tr, ans) \<Rightarrow> \<not> str_includes tr (js ''Error decoding base64'')
       | Inl err \<Rightarrow> False)
   \<and> answer (decodeResponse node
       (js ''{"bytes":"SGVsbG8="}:message-type{"bytes":"V29ybGQ="}:message-type{"bytes":"!"}''))
     = Inr []
   \<and> (case decodeResponse node
         (js ''{"bytes":"SGVsbG8="}:message-type{"bytes":"V29ybGQ="}:message-type{"bytes":"!"}'') of
         Inr (tr, ans) \<Rightarrow> \<not> str_includes tr (js ''Error decoding base64'')
       | Inl err \<Rightarrow> False)\<close>
proof -
  have middle: \<open>decodeResponse node
       (js ''{"bytes":"SGVsbG8="}:message-type{"bytes":"!"}:message-type{"bytes":"V29ybGQ="}'')
     = Inr (join_js
          [js ''Decoded response: {"bytes":"SGVsbG8="}:message-type{"bytes":"!"}:message-type{"bytes":"V29ybGQ="}'',
           js ''Split Response: ''
             @ stringify_strings [js ''{"bytes":"SGVsbG8="}'', js ''{"bytes":"!"}'',
                                  js ''{"bytes":"V29ybGQ="}''],
           js ''length of split: 3'',
           js ''Hello'', [], js ''World'',
           js ''Lst Response: {"bytes":"V29ybGQ="}'',
           js ''Bytes in last response''] NEWLINE, js ''World'')\<close>
    unfolding decodeResponse_def middle_bad_log
    by (simp only: sum.case prod.case jsval.case normalize_world)
  have final: \<open>decodeResponse node
       (js ''{"bytes":"SGVsbG8="}:message-type{"bytes":"V29ybGQ="}:message-type{"bytes":"!"}'')
     = Inr (join_js
          [js ''Decoded response: {"bytes":"SGVsbG8="}:message-type{"bytes":"V29ybGQ="}:message-type{"bytes":"!"}'',
           js ''Split Response: ''
             @ stringify_strings [js ''{"bytes":"SGVsbG8="}'', js ''{"bytes":"V29ybGQ="}'',
                                  js ''{"bytes":"!"}''],
           js ''length of split: 3'',
           js ''Hello'', js ''World'', [],
           js ''Lst Response: {"bytes":"!"}'',
           js ''Bytes in last response''] NEWLINE, [])\<close>
    unfolding decodeResponse_def last_bad_log
    by (simp only: sum.case prod.case jsval.case normalize_empty)
  show ?thesis
    unfolding middle final
    using middle_bad_no_error_line last_bad_no_error_line
    by (simp only: answer_def map_sum.simps sum.case prod.case snd_conv id_apply) simp
qed

text \<open>
  C5, as amended: applying the three replacements twice gives the same as applying them
  once whenever neither noise string occurs in the result of the first pass. Without
  that condition the claim fails, since removing a noise string can bring the text
  around it together into a new one: the counterexample comes after the witness.
\<close>

theorem normalize_text_idempotent_when_clean:
  assumes "\<not> str_includes (normalize_text s) NOISE_INPUT"
      and "\<not> str_includes (normalize_text s) NOISE_SOURCE"
  shows "normalize_text (normalize_text s) = normalize_text s"
  using assms by (rule normalize_text_fixed) (rule normalize_text_no_quote)

theorem normalize_text_idempotent_witness:
  \<open>\<not> str_includes (normalize_text (js ''say "{input:{value:hi,source:null}}"'')) NOISE_INPUT
   \<and> \<not> str_includes (normalize_text (js ''say "{input:{value:hi,source:null}}"'')) NOISE_SOURCE
   \<and> normalize_text (js ''say "{input:{value:hi,source:null}}"'') = js ''say hi''
   \<and> normalize_text (normalize_text (js ''say "{input:{value:hi,source:null}}"''))
       = normalize_text (js ''say "{input:{value:hi,source:null}}"'')\<close>
proof -
  have once: \<open>normalize_text (js ''say "{input:{value:hi,source:null}}"'') = js ''say hi''\<close>
    by (simp add: normalize_text_def literal_defs)
  have clean: "\<not> str_includes (js ''say hi'') NOISE_INPUT" "\<not> str_includes (js ''say hi'') NOISE_SOURCE"
    by (simp_all add: string_defs)
  from normalize_text_idempotent_when_clean [of \<open>js ''say "{input:{value:hi,source:null}}"''\<close>] once clean
  show ?thesis by simp
qed

text \<open>
  The counterexample to C5 as stated: one pass leaves \<open>{input:{value:\<close>, a second pass
  removes it.
\<close>

lemma nested_noise_once:
  "normalize_text (js ''{input:{va{input:{value:lue:'') = js ''{input:{value:''"
  by (simp add: normalize_text_def literal_defs)

lemma nested_noise_twice:
  "normalize_text (normalize_text (js ''{input:{va{input:{value:lue:'')) = []"
  by (simp add: normalize_text_def literal_defs)

theorem normalize_text_not_idempotent:
  "normalize_text (js ''{input:{va{input:{value:lue:'') = js ''{input:{value:''
   \<and> normalize_text (normalize_text (js ''{input:{va{input:{value:lue:'')) = []
   \<and> normalize_text (normalize_text (js ''{input:{va{input:{value:lue:''))
       \<noteq> normalize_text (js ''{input:{va{input:{value:lue:'')"
proof -
  have "normalize_text (normalize_text (js ''{input:{va{input:{value:lue:''))
          \<noteq> normalize_text (js ''{input:{va{input:{value:lue:'')"
  proof
    assume "normalize_text (normalize_text (js ''{input:{va{input:{value:lue:''))
              = normalize_text (js ''{input:{va{input:{value:lue:'')"
    then have "[] = normalize_text (js ''{input:{va{input:{value:lue:'')"
      unfolding nested_noise_twice .
    then have "[] = js ''{input:{value:''"
      unfolding nested_noise_once .
    then show False
      by (simp add: js_def)
  qed
  with nested_noise_once nested_noise_twice show ?thesis
    by blast
qed

lemma stringify_object_three:
  "stringify_object [(k1, v1), (k2, v2), (k3, v3)]
     = js ''{'' @ stringify_string k1 @ js '':'' @ v1
       @ js '','' @ stringify_string k2 @ js '':'' @ v2
       @ js '','' @ stringify_string k3 @ js '':'' @ v3 @ js ''}''"
  by (simp add: stringify_object_def stringify_member_def)

lemma stringify_myobj_keys:
  \<open>stringify_string (js ''inputText'') = js ''"inputText"''\<close>
  \<open>stringify_string (js ''enableTrace'') = js ''"enableTrace"''\<close>
  \<open>stringify_string (js ''endSession'') = js ''"endSession"''\<close>
  by (simp_all add: quote_defs)

lemma stringify_myobj_tail:
  \<open>stringify_myobj obj
     = js ''{"inputText":'' @ stringify_string (inputText obj)
       @ js '',"enableTrace":'' @ stringify_bool (enableTrace obj)
       @ js '',"endSession":'' @ stringify_bool (endSession obj) @ js ''}''\<close>
  unfolding stringify_myobj_def stringify_object_three stringify_myobj_keys
  by (simp add: js_def)

lemma endSession_suffix_true:
  \<open>suffix (js ''"endSession":true}'') (stringify_myobj obj) = endSession obj\<close>
  unfolding stringify_myobj_tail suffix_to_prefix
  by (simp add: js_def stringify_bool_def)

lemma endSession_suffix_false:
  \<open>suffix (js ''"endSession":false}'') (stringify_myobj obj) = (\<not> endSession obj)\<close>
  unfolding stringify_myobj_tail suffix_to_prefix
  by (simp add: js_def stringify_bool_def)

text \<open>
  C6: \<open>lambdaHandler\<close> makes exactly one call, and the JSON body of that call ends with
  \<open>"endSession":true}\<close> exactly when the \<open>endSession\<close> field of the event is the boolean
  \<open>true\<close> or the string \<open>true\<close>; in every other case it ends with \<open>"endSession":false}\<close>.
\<close>

theorem endSession_sent:
  \<open>\<exists>call. fst (lambdaHandler P net event) = [call]
     \<and> suffix (js ''"endSession":true}'') (req_body call)
         = (event_endSession event = Boolean True \<or> event_endSession event = String (js ''true''))
     \<and> suffix (js ''"endSession":false}'') (req_body call)
         = (event_endSession event \<noteq> Boolean True \<and> event_endSession event \<noteq> String (js ''true''))\<close>
  by (simp add: lambdaHandler_calls endSession_suffix_true endSession_suffix_false)

theorem endSession_sent_witness:
  \<open>map req_body (fst (lambdaHandler node offline
       \<lparr>sessionId = js ''s1'', question = js ''hi'', event_endSession = String (js ''true'')\<rparr>))
     = [js ''{"inputText":"hi","enableTrace":true,"endSession":true}'']
   \<and> suffix (js ''"endSession":true}'') (js ''{"inputText":"hi","enableTrace":true,"endSession":true}'')
   \<and> map req_body (fst (lambdaHandler node offline
       \<lparr>sessionId = js ''s1'', question = js ''hi'', event_endSession = String (js ''True'')\<rparr>))
     = [js ''{"inputText":"hi","enableTrace":true,"endSession":false}'']
   \<and> suffix (js ''"endSession":false}'') (js ''{"inputText":"hi","enableTrace":true,"endSession":false}'')\<close>
proof -
  have q: \<open>stringify_string (js ''hi'') = js ''"hi"''\<close>
    by (simp add: quote_defs)
  have t: \<open>String (js ''True'') \<noteq> String (js ''true'')\<close>
    by (simp add: js_def)
  have b1: \<open>map req_body (fst (lambdaHandler node offline
       \<lparr>sessionId = js ''s1'', question = js ''hi'', event_endSession = String (js ''true'')\<rparr>))
     = [js ''{"inputText":"hi","enableTrace":true,"endSession":true}'']\<close>
    unfolding lambdaHandler_calls
    by (simp add: stringify_myobj_tail q stringify_bool_def) (simp add: js_def)
  have b2: \<open>map req_body (fst (lambdaHandler node offline
       \<lparr>sessionId = js ''s1'', question = js ''hi'', event_endSession = String (js ''True'')\<rparr>))
     = [js ''{"inputText":"hi","enableTrace":true,"endSession":false}'']\<close>
    unfolding lambdaHandler_calls
    by (simp add: stringify_myobj_tail q t stringify_bool_def) (simp add: js_def)
  obtain c1 where \<open>fst (lambdaHandler node offline
       \<lparr>sessionId = js ''s1'', question = js ''hi'', event_endSession = String (js ''true'')\<rparr>) = [c1]\<close>
    and \<open>suffix (js ''"endSession":true}'') (req_body c1)\<close>
    using endSession_sent [of node offline
       \<open>\<lparr>sessionId = js ''s1'', question = js ''hi'', event_endSession = String (js ''true'')\<rparr>\<close>]
    by auto
  with b1 have s1: \<open>suffix (js ''"endSession":true}'')
                      (js ''{"inputText":"hi","enableTrace":true,"endSession":true}'')\<close>
    by simp
  obtain c2 where \<open>fst (lambdaHandler node offline
       \<lparr>sessionId = js ''s1'', question = js ''hi'', event_endSession = String (js ''True'')\<rparr>) = [c2]\<close>
    and \<open>suffix (js ''"endSession":false}'') (req_body c2)\<close>
    using endSession_sent [of node offline
       \<open>\<lparr>sessionId = js ''s1'', question = js ''hi'', event_endSession = String (js ''True'')\<rparr>\<close>] t
    by auto
  with b2 have s2: \<open>suffix (js ''"endSession":false}'')
                      (js ''{"inputText":"hi","enableTrace":true,"endSession":false}'')\<close>
    by simp
  from b1 s1 b2 s2 show ?thesis by blast
qed

lemma split_x_segment:
  assumes "\<not> str_includes seg MESSAGE_TYPE"
  shows "split_js (js ''x'' @ MESSAGE_TYPE @ seg) MESSAGE_TYPE = [js ''x'', seg]"
proof -
  have "split_at MESSAGE_TYPE seg = [seg]"
    using assms by (simp add: split_at_absent str_includes_sublist)
  then show ?thesis
    by (simp add: split_js_def js_def MESSAGE_TYPE_def)
qed

lemma fourth_field:
  assumes "q \<notin> set a" "q \<notin> set b" "q \<notin> set c" "q \<notin> set f"
  shows "split_js (a @ [q] @ b @ [q] @ c @ [q] @ f @ [q] @ d) [q]
           = a # b # c # f # split_js d [q]"
  using assms by (simp add: split_js_def split_at_single)

text \<open>
  C7, as amended: for every body \<open>x:message-type\<close> followed by one segment that holds
  \<open>bytes\<close>, holds no further \<open>:message-type\<close>, and has the base64 text \<open>SGVsbG8=\<close> as its
  fourth quote-separated field, the answer is \<open>Hello\<close>. For the body of the claim read
  as it is written, with dots around \<open>bytes\<close>, the base64 text is the second field and
  the answer is empty: the counterexample comes after the witness.
\<close>

theorem hello_in_fourth_field:
  assumes "DQUOTE \<notin> set a" and "DQUOTE \<notin> set b" and "DQUOTE \<notin> set c"
      and "seg = a @ [DQUOTE] @ b @ [DQUOTE] @ c @ [DQUOTE] @ js ''SGVsbG8='' @ [DQUOTE] @ d"
      and "str_includes seg BYTES"
      and "\<not> str_includes seg MESSAGE_TYPE"
  shows "answer (decodeResponse node (js ''x'' @ MESSAGE_TYPE @ seg)) = Inr (js ''Hello'')"
proof -
  have q: "DQUOTE \<notin> set (js ''SGVsbG8='')"
    by (simp add: js_def DQUOTE_def)
  have fields: "split_js seg [DQUOTE] = a # b # c # js ''SGVsbG8='' # split_js d [DQUOTE]"
    unfolding assms(4) using assms(1-3) q by (rule fourth_field)
  have "lastStage node (js ''x'' @ MESSAGE_TYPE @ seg) seg
          = Inr ([js ''Bytes in last response''], JStr (js ''Hello''))"
    by (rule lastStage_payload) (simp_all add: assms(5) fields node_def hello_decoded)
  with answer_of_lastStage [OF split_x_segment [OF assms(6)]]
  show ?thesis
    by (simp add: normalize_hello)
qed

theorem hello_in_fourth_field_witness:
  \<open>answer (decodeResponse node (js ''x:message-type{"bytes":"SGVsbG8="}'')) = Inr (js ''Hello'')\<close>
proof -
  have seg: \<open>js ''{"bytes":"SGVsbG8="}''
      = js ''{'' @ [DQUOTE] @ js ''bytes'' @ [DQUOTE] @ js '':'' @ [DQUOTE] @ js ''SGVsbG8='' @ [DQUOTE] @ js ''}''\<close>
    by (simp add: js_def DQUOTE_def)
  have body: \<open>js ''x:message-type{"bytes":"SGVsbG8="}'' = js ''x'' @ MESSAGE_TYPE @ js ''{"bytes":"SGVsbG8="}''\<close>
    by (simp add: js_def MESSAGE_TYPE_def)
  have nq: "DQUOTE \<notin> set (js ''{'')" "DQUOTE \<notin> set (js ''bytes'')" "DQUOTE \<notin> set (js '':'')"
    by (simp_all add: js_def DQUOTE_def)
  have nm: \<open>\<not> str_includes (js ''{"bytes":"SGVsbG8="}'') MESSAGE_TYPE\<close>
    by (simp add: string_defs)
  from hello_in_fourth_field [OF nq seg hello_includes_bytes nm] body
  show ?thesis by simp
qed

text \<open>
  The counterexample to C7 as stated: the body as the claim writes it has three
  quote-separated fields in its last segment, so nothing is decoded.
\<close>

lemma literal_example_split:
  \<open>split_js (js ''x:message-type...bytes..."SGVsbG8="...'') MESSAGE_TYPE
     = [js ''x'', js ''...bytes..."SGVsbG8="...'']\<close>
  by (simp add: string_defs)

lemma literal_example_lastStage:
  \<open>lastStage node (js ''x:message-type...bytes..."SGVsbG8="...'') (js ''...bytes..."SGVsbG8="...'')
     = Inr ([js ''Bytes in last response''], JStr [])\<close>
proof -
  have a: \<open>str_includes (js ''...bytes..."SGVsbG8="...'') BYTES\<close>
    by (simp add: string_defs)
  have b: \<open>split_js (js ''...bytes..."SGVsbG8="...'') [DQUOTE]
           = [js ''...bytes...'', js ''SGVsbG8='', js ''...'']\<close>
    by (simp add: string_defs)
  show ?thesis
    unfolding lastStage_def by (simp add: a b)
qed

theorem literal_example_answer_empty:
  \<open>answer (decodeResponse node (js ''x:message-type...bytes..."SGVsbG8="...'')) = Inr []
   \<and> \<not> str_includes [] (js ''Hello'')\<close>
proof -
  have \<open>last [js ''x'', js ''...bytes..."SGVsbG8="...''] = js ''...bytes..."SGVsbG8="...''\<close>
    by simp
  with answer_of_lastStage [OF literal_example_split] literal_example_lastStage
  have \<open>answer (decodeResponse node (js ''x:message-type...bytes..."SGVsbG8="...'')) = Inr []\<close>
    by (simp add: normalize_empty)
  moreover have "\<not> str_includes [] (js ''Hello'')"
    by (simp add: string_defs)
  ultimately show ?thesis by simp
qed

text \<open>
  C8: the envelope that \<open>lambdaHandler\<close> returns, for every event, platform and network.
  When the network call or \<open>decodeResponse\<close> throws, the status code is 500 and the body
  is the JSON object with the member \<open>error\<close> holding the message of the error. When
  both return, the status code is 200 and the body is the JSON object with \<open>response\<close>
  holding the trace and \<open>trace_data\<close> holding the answer.
\<close>

theorem lambdaHandler_envelope:
  assumes "fst (lambdaHandler P net event) = [call]"
  shows "snd (lambdaHandler P net event) =
     (case net call of
        Inl err \<Rightarrow>
          \<lparr>statusCode = 500,
           body = stringify_object [(js ''error'', stringify_string (message err))]\<rparr>
      | Inr responseText \<Rightarrow>
          (case decodeResponse P responseText of
             Inl err \<Rightarrow>
               \<lparr>statusCode = 500,
                body = stringify_object [(js ''error'', stringify_string (message err))]\<rparr>
           | Inr (tr, ans) \<Rightarrow>
               \<lparr>statusCode = 200,
                body = stringify_object
                         [(js ''response'', stringify_string tr),
                          (js ''trace_data'', stringify_string ans)]\<rparr>))"
proof -
  from assms have call: "[call] = fst (lambdaHandler P net event)"
    by simp
  show ?thesis
  proof (cases "net call")
    case (Inl err)
    then show ?thesis
      using call by (simp add: lambdaHandler_def askQuestion_def Let_def)
  next
    case (Inr responseText)
    then show ?thesis
      using call
      by (cases "decodeResponse P responseText")
         (simp_all add: lambdaHandler_def askQuestion_def Let_def split: prod.splits)
  qed
qed

lemma handler_call_exists: "\<exists>call. fst (lambdaHandler P net event) = [call]"
  by (simp add: lambdaHandler_calls)

lemma stringify_error_offline:
  \<open>stringify_object [(js ''error'', stringify_string (js ''fetch failed''))]
     = js ''{"error":"fetch failed"}''\<close>
  by (simp add: stringify_object_def stringify_member_def quote_defs)

lemma stringify_error_replace:
  \<open>stringify_object [(js ''error'', stringify_string (js ''finalResponse.replace is not a function''))]
     = js ''{"error":"finalResponse.replace is not a function"}''\<close>
  by (simp add: stringify_object_def stringify_member_def quote_defs)

lemma stringify_hello: \<open>stringify_string (js ''Hello'') = js ''"Hello"''\<close>
  by (simp add: quote_defs)

lemma hello_body_answer:
  \<open>answer (decodeResponse node (js ''x:message-type{"bytes":"SGVsbG8="}'')) = Inr (js ''Hello'')\<close>
proof -
  have s: \<open>split_js (js ''x:message-type{"bytes":"SGVsbG8="}'') MESSAGE_TYPE
             = [js ''x'', js ''{"bytes":"SGVsbG8="}'']\<close>
    by (simp add: string_defs)
  have \<open>lastStage node (js ''x:message-type{"bytes":"SGVsbG8="}'') (last [js ''x'', js ''{"bytes":"SGVsbG8="}''])
          = Inr ([js ''Bytes in last response''], JStr (js ''Hello''))\<close>
    by (rule lastStage_payload) (simp_all add: hello_includes_bytes hello_fields node_def hello_decoded)
  from answer_of_lastStage [OF s this] show ?thesis
    by (simp add: normalize_hello)
qed

lemma true_text_lastStage:
  \<open>lastStage node (js ''finalResponse":{"text":true,"a":""}'') (js ''finalResponse":{"text":true,"a":""}'')
     = Inr ([js ''no bytes in last response''], JBool True)\<close>
proof -
  have a: \<open>\<not> str_includes (js ''finalResponse":{"text":true,"a":""}'') BYTES\<close>
    by (simp add: string_defs)
  have b: \<open>indexOf (js ''finalResponse":{"text":true,"a":""}'') searchString = Some 0\<close>
    by (simp add: string_defs)
  have c: \<open>drop (0 + length searchString) (js ''finalResponse":{"text":true,"a":""}'')
             = js ''{"text":true,"a":""}''\<close>
    by (simp add: string_defs)
  have d: \<open>indexOf (js ''{"text":true,"a":""}'') CLOSING = Some 18\<close>
    by (simp add: string_defs)
  have e: \<open>take (18 + 2) (js ''{"text":true,"a":""}'') = js ''{"text":true,"a":""}''\<close>
    by (simp add: string_defs)
  have p: \<open>node_JSON_parse (js ''{"text":true,"a":""}'')
             = Inr (JObj [(js ''text'', JBool True), (js ''a'', JStr [])])\<close>
    by (simp add: json_defs literal_defs)
  have f: \<open>get_text (JObj [(js ''text'', JBool True), (js ''a'', JStr [])]) = Inr (JBool True)\<close>
    by (simp add: literal_defs)
  show ?thesis
    unfolding lastStage_def
    by (simp only: a b c d e f p node_def Let_def if_False option.case sum.case
          platform.simps truthy.simps) simp
qed

lemma true_text_raises:
  \<open>decodeResponse node (js ''finalResponse":{"text":true,"a":""}'')
     = Inl (TypeError (js ''finalResponse.replace is not a function''))\<close>
proof -
  have \<open>split_js (js ''finalResponse":{"text":true,"a":""}'') MESSAGE_TYPE
          = [js ''finalResponse":{"text":true,"a":""}'']\<close>
    by (simp add: string_defs)
  then show ?thesis
    by (simp add: decodeResponse_def decodeLog_def Let_def true_text_lastStage)
qed

theorem lambdaHandler_envelope_witness:
  \<open>snd (lambdaHandler node offline
          \<lparr>sessionId = js ''s1'', question = js ''hi'', event_endSession = Absent\<rparr>)
     = \<lparr>statusCode = 500, body = js ''{"error":"fetch failed"}''\<rparr>
   \<and> snd (lambdaHandler node (replying (js ''finalResponse":{"text":true,"a":""}''))
          \<lparr>sessionId = js ''s1'', question = js ''hi'', event_endSession = Absent\<rparr>)
     = \<lparr>statusCode = 500, body = js ''{"error":"finalResponse.replace is not a function"}''\<rparr>
   \<and> statusCode (snd (lambdaHandler node (replying (js ''x:message-type{"bytes":"SGVsbG8="}''))
          \<lparr>sessionId = js ''s1'', question = js ''hi'', event_endSession = Absent\<rparr>)) = 200
   \<and> suffix (js '',"trace_data":"Hello"}'')
         (body (snd (lambdaHandler node (replying (js ''x:message-type{"bytes":"SGVsbG8="}''))
          \<lparr>sessionId = js ''s1'', question = js ''hi'', event_endSession = Absent\<rparr>)))\<close>
proof -
  let ?ev = \<open>\<lparr>sessionId = js ''s1'', question = js ''hi'', event_endSession = Absent\<rparr>\<close>
  obtain c1 where c1: "fst (lambdaHandler node offline ?ev) = [c1]"
    using handler_call_exists by blast
  have a: \<open>snd (lambdaHandler node offline ?ev)
             = \<lparr>statusCode = 500, body = js ''{"error":"fetch failed"}''\<rparr>\<close>
    using lambdaHandler_envelope [OF c1]
    by (simp add: offline_def stringify_error_offline)
  obtain c2 where c2:
    \<open>fst (lambdaHandler node (replying (js ''finalResponse":{"text":true,"a":""}'')) ?ev) = [c2]\<close>
    using handler_call_exists by blast
  have b: \<open>snd (lambdaHandler node (replying (js ''finalResponse":{"text":true,"a":""}'')) ?ev)
             = \<lparr>statusCode = 500, body = js ''{"error":"finalResponse.replace is not a function"}''\<rparr>\<close>
    using lambdaHandler_envelope [OF c2]
    by (simp add: replying_def true_text_raises stringify_error_replace)
  obtain c3 where c3:
    \<open>fst (lambdaHandler node (replying (js ''x:message-type{"bytes":"SGVsbG8="}'')) ?ev) = [c3]\<close>
    using handler_call_exists by blast
  obtain tr where tr: \<open>decodeResponse node (js ''x:message-type{"bytes":"SGVsbG8="}'') = Inr (tr, js ''Hello'')\<close>
    using hello_body_answer by (auto simp: answer_def map_sum_def split: sum.splits)
  have r: \<open>snd (lambdaHandler node (replying (js ''x:message-type{"bytes":"SGVsbG8="}'')) ?ev)
             = \<lparr>statusCode = 200,
                body = stringify_object [(js ''response'', stringify_string tr),
                                         (js ''trace_data'', js ''"Hello"'')]\<rparr>\<close>
    using lambdaHandler_envelope [OF c3]
    by (simp add: replying_def tr stringify_hello)
  have \<open>suffix (js '',"trace_data":"Hello"}'')
          (stringify_object [(js ''response'', stringify_string tr),
                             (js ''trace_data'', js ''"Hello"'')])\<close>
    unfolding suffix_to_prefix
    by (simp add: stringify_object_def stringify_member_def)
       (simp add: quote_defs)
  with a b r show ?thesis by simp
qed












text \<open>
  C10: the answer that \<open>decodeResponse\<close> returns holds no double quote, whatever the
  response text and whatever the decoder and the JSON parser return: the first
  replacement removes every one, and the two that follow only remove text.
\<close>

theorem answer_has_no_quote:
  "decodeResponse P responseText = Inr (tr, ans) \<Longrightarrow> DQUOTE \<notin> set ans"
  by (auto dest!: decodeResponse_Inr simp: normalize_text_no_quote)

lemma quoted_hi_split:
  \<open>split_js (js ''x:message-type{"bytes":"IkhpIg=="}'') MESSAGE_TYPE
     = [js ''x'', js ''{"bytes":"IkhpIg=="}'']\<close>
  by (simp add: string_defs)

lemma quoted_hi_fields:
  \<open>split_js (js ''{"bytes":"IkhpIg=="}'') [DQUOTE]
     = [js ''{'', js ''bytes'', js '':'', js ''IkhpIg=='', js ''}'']\<close>
  by (simp add: string_defs)

lemma quoted_hi_decoded:
  \<open>node_Buffer_base64_utf8 (js ''IkhpIg=='') = Inr (js ''"Hi"'')\<close>
  by (simp add: base64_defs js_def)

lemma quoted_hi_lastStage:
  \<open>lastStage node (js ''x:message-type{"bytes":"IkhpIg=="}'') (js ''{"bytes":"IkhpIg=="}'')
     = Inr ([js ''Bytes in last response''], JStr (js ''"Hi"''))\<close>
  unfolding lastStage_def quoted_hi_fields
  by (simp add: node_def quoted_hi_decoded) (simp add: string_defs)

lemma quoted_hi_answer:
  \<open>answer (decodeResponse node (js ''x:message-type{"bytes":"IkhpIg=="}'')) = Inr (js ''Hi'')\<close>
proof -
  have \<open>normalize_text (js ''"Hi"'') = js ''Hi''\<close>
    by (simp add: normalize_text_def literal_defs)
  with decodeResponse_of_lastStage [of node \<open>js ''x:message-type{"bytes":"IkhpIg=="}''\<close>]
  show ?thesis
    by (auto simp: quoted_hi_split quoted_hi_lastStage answer_def)
qed

theorem answer_has_no_quote_witness:
  \<open>answer (decodeResponse node (js ''x:message-type{"bytes":"IkhpIg=="}'')) = Inr (js ''Hi'')
   \<and> DQUOTE \<notin> set (js ''Hi'')\<close>
proof -
  obtain tr where r: \<open>decodeResponse node (js ''x:message-type{"bytes":"IkhpIg=="}'') = Inr (tr, js ''Hi'')\<close>
    using quoted_hi_answer by (auto simp: answer_def map_sum_def split: sum.splits)
  from answer_has_no_quote [OF r] quoted_hi_answer show ?thesis by simp
qed


end
